theory Spec2Isabelle
  imports Main "HOL-Library.Word" "HOL-Library.Sublist"
begin

section \<open>JavaScript strings and numbers\<close>

text \<open>
  A JavaScript string is a finite sequence of UTF-16 code units; \<open>length\<close>, \<open>slice\<close>,
  \<open>startsWith\<close>, \<open>trim\<close> and \<open>===\<close> all work on code units. A literal of the source is
  written \<open>str ''...''\<close>.
\<close>

type_synonym unit16 = "16 word"
type_synonym jsstring = "unit16 list"

definition str :: "string \<Rightarrow> jsstring" where
  "str cs = map of_char cs"

text \<open>
  The white space and line terminators that \<open>String.prototype.trim\<close> and \<open>parseInt\<close>
  strip (ECMAScript \<open>StrWhiteSpaceChar\<close>): TAB, LF, VT, FF, CR, SP, NBSP, U+1680,
  U+2000 to U+200A, U+2028, U+2029, U+202F, U+205F, U+3000 and U+FEFF.
\<close>

definition isWhiteSpace :: "unit16 \<Rightarrow> bool" where
  "isWhiteSpace c \<longleftrightarrow>
     c \<in> set [0x9, 0xA, 0xB, 0xC, 0xD, 0x20, 0xA0, 0x1680, 0x2028, 0x2029, 0x202F, 0x205F,
              0x3000, 0xFEFF]
     \<or> (0x2000 \<le> c \<and> c \<le> 0x200A)"

definition trimStart :: "jsstring \<Rightarrow> jsstring" where
  "trimStart s = dropWhile isWhiteSpace s"

definition trim :: "jsstring \<Rightarrow> jsstring" where
  "trim s = rev (trimStart (rev (trimStart s)))"

definition startsWith :: "jsstring \<Rightarrow> jsstring \<Rightarrow> bool" where
  "startsWith s p \<longleftrightarrow> take (length p) s = p"

text \<open>
  A JavaScript number, as far as this code computes with numbers: an integer (string
  lengths and sums of a few of them, all far below \<open>2 ^ 53\<close>, so exact) or \<open>NaN\<close>,
  which is \<open>None\<close>. Arithmetic with \<open>NaN\<close> gives \<open>NaN\<close>.
\<close>

type_synonym jsnumber = "int option"

definition num_times :: "jsnumber \<Rightarrow> int \<Rightarrow> jsnumber" where
  "num_times x k = map_option (\<lambda>n. n * k) x"

definition num_plus :: "jsnumber \<Rightarrow> int \<Rightarrow> jsnumber" where
  "num_plus x k = map_option (\<lambda>n. n + k) x"

definition minus_num :: "int \<Rightarrow> jsnumber \<Rightarrow> jsnumber" where
  "minus_num k x = map_option (\<lambda>n. k - n) x"

text \<open>
  \<open>String.prototype.slice(start, end)\<close>: an argument is first made an integer (\<open>NaN\<close>
  becomes 0), a negative one counts from the end, and both are clamped to the string.
  \<open>slice_from\<close> is the call with one argument, where the end is the length.
\<close>

definition toIntegerOrInfinity :: "jsnumber \<Rightarrow> int" where
  "toIntegerOrInfinity x = (case x of None \<Rightarrow> 0 | Some n \<Rightarrow> n)"

definition relativeIndex :: "nat \<Rightarrow> int \<Rightarrow> nat" where
  "relativeIndex len i = (if i < 0 then nat (max (int len + i) 0) else min (nat i) len)"

definition slice :: "jsstring \<Rightarrow> jsnumber \<Rightarrow> jsnumber \<Rightarrow> jsstring" where
  "slice s start end =
     (let len = length s;
          from = relativeIndex len (toIntegerOrInfinity start);
          to = relativeIndex len (toIntegerOrInfinity end)
      in take (to - from) (drop from s))"

definition slice_from :: "jsstring \<Rightarrow> jsnumber \<Rightarrow> jsstring" where
  "slice_from s start = drop (relativeIndex (length s) (toIntegerOrInfinity start)) s"

text \<open>
  \<open>parseInt(s, 16)\<close>: leading white space is skipped, one sign is read, a prefix \<open>0x\<close>
  or \<open>0X\<close> is skipped, and the longest run of hexadecimal digits that follows is the
  number; anything after it is ignored. Without a digit there the result is \<open>NaN\<close>.
  (The value is exact for the at most four characters this code passes.)
\<close>

definition hexDigit :: "unit16 \<Rightarrow> nat option" where
  "hexDigit c =
     (if 0x30 \<le> c \<and> c \<le> 0x39 then Some (unat c - 0x30)
      else if 0x61 \<le> c \<and> c \<le> 0x66 then Some (unat c - 0x61 + 10)
      else if 0x41 \<le> c \<and> c \<le> 0x46 then Some (unat c - 0x41 + 10)
      else None)"

definition isHexDigit :: "unit16 \<Rightarrow> bool" where
  "isHexDigit c \<longleftrightarrow> hexDigit c \<noteq> None"

definition hexValue :: "jsstring \<Rightarrow> nat" where
  "hexValue z = foldl (\<lambda>acc c. 16 * acc + (case hexDigit c of None \<Rightarrow> 0 | Some d \<Rightarrow> d)) 0 z"

definition parseInt16 :: "jsstring \<Rightarrow> jsnumber" where
  "parseInt16 inputString =
     (let S = trimStart inputString;
          sign = (if S \<noteq> [] \<and> hd S = 0x2D then - 1 else 1 :: int);
          S1 = (if S \<noteq> [] \<and> (hd S = 0x2B \<or> hd S = 0x2D) then tl S else S);
          S2 = (if 2 \<le> length S1 \<and> (take 2 S1 = str ''0x'' \<or> take 2 S1 = str ''0X'')
                then drop 2 S1 else S1);
          Z = takeWhile isHexDigit S2
      in if Z = [] then None else Some (sign * int (hexValue Z)))"

section \<open>Bytecode comparator\<close>

text \<open>
  \<^verbatim>\<open>const metadataSize = parseInt(bytecode.slice(-4), 16) * 2 + 4;\<close>
  \<^verbatim>\<open>return bytecode.slice(0, bytecode.length - metadataSize);\<close>
\<close>

definition metadataSize :: "jsstring \<Rightarrow> jsnumber" where
  "metadataSize bytecode = num_plus (num_times (parseInt16 (slice_from bytecode (Some (- 4)))) 2) 4"

definition getBytecodeWithoutMetadata :: "jsstring \<Rightarrow> jsstring" where
  "getBytecodeWithoutMetadata bytecode =
     slice bytecode (Some 0) (minus_num (int (length bytecode)) (metadataSize bytecode))"

section \<open>JavaScript values\<close>

text \<open>
  The values that \<open>JSON.parse\<close> yields, and \<open>undefined\<close>, which reading a missing
  property gives. A number is carried by the text \<open>String(n)\<close> renders it to: this code
  only tests numbers for truth and prints them. An object is the list of its own
  properties, one entry per key. Members inherited from a prototype (\<open>constructor\<close>,
  \<open>toString\<close>, \<open>hasOwnProperty\<close> and the like) are not part of this model: reading
  such a name gives \<open>undefined\<close> here where the program finds the inherited member,
  so what is proved below about a missing key holds for names that are not inherited
  ones.
\<close>

datatype jsval =
    JUndefined
  | JNull
  | JBool bool
  | JNumber jsstring
  | JString jsstring
  | JArray "jsval list"
  | JObject "(jsstring \<times> jsval) list"

datatype js_error =
    Error jsstring \<comment> \<open>\<open>new Error(message)\<close>\<close>
  | TypeError \<comment> \<open>reading a property of \<open>undefined\<close> or \<open>null\<close>, calling what is no function\<close>
  | SyntaxError jsstring \<comment> \<open>\<open>JSON.parse\<close>\<close>
  | URIError
  | FetchError jsstring \<comment> \<open>the request itself failed: \<open>fetch\<close> rejects\<close>
  | SystemError jsstring \<comment> \<open>a failing file-system call\<close>

fun truthy :: "jsval \<Rightarrow> bool" where
  "truthy JUndefined = False"
| "truthy JNull = False"
| "truthy (JBool b) = b"
| "truthy (JNumber r) = (r \<noteq> str ''0'')"
| "truthy (JString s) = (s \<noteq> [])"
| "truthy (JArray xs) = True"
| "truthy (JObject kvs) = True"

text \<open>\<open>a && b\<close> is \<open>a\<close> when \<open>a\<close> is falsy, and \<open>b\<close> otherwise.\<close>

definition js_and :: "jsval \<Rightarrow> jsval \<Rightarrow> jsval" where
  "js_and a b = (if truthy a then b else a)"

definition thenE :: "'e + 'a \<Rightarrow> ('a \<Rightarrow> 'e + 'b) \<Rightarrow> 'e + 'b" where
  "thenE r f = (case r of Inl e \<Rightarrow> Inl e | Inr a \<Rightarrow> f a)"

definition isDecimalDigit :: "unit16 \<Rightarrow> bool" where
  "isDecimalDigit c \<longleftrightarrow> 0x30 \<le> c \<and> c \<le> 0x39"

text \<open>An array index is a key in canonical decimal form.\<close>

definition arrayIndex :: "jsstring \<Rightarrow> nat option" where
  "arrayIndex k =
     (if k = [] \<or> \<not> list_all isDecimalDigit k \<or> (hd k = 0x30 \<and> 1 < length k) then None
      else Some (foldl (\<lambda>acc c. 10 * acc + (unat c - 0x30)) 0 k))"

function decimal :: "nat \<Rightarrow> jsstring" where
  "decimal n = (if n < 10 then [of_nat (0x30 + n)] else decimal (n div 10) @ [of_nat (0x30 + n mod 10)])"
  by pat_completeness auto
termination
  by (relation "measure (\<lambda>n. n)") auto

definition indexed :: "'a list \<Rightarrow> ('a \<Rightarrow> jsval) \<Rightarrow> jsstring \<Rightarrow> jsval" where
  "indexed xs wrap k =
     (if k = str ''length'' then JNumber (decimal (length xs))
      else case arrayIndex k of
             None \<Rightarrow> JUndefined
           | Some i \<Rightarrow> if i < length xs then wrap (xs ! i) else JUndefined)"

fun getProp :: "jsval \<Rightarrow> jsstring \<Rightarrow> js_error + jsval" where
  "getProp JUndefined k = Inl TypeError"
| "getProp JNull k = Inl TypeError"
| "getProp (JBool b) k = Inr JUndefined"
| "getProp (JNumber r) k = Inr JUndefined"
| "getProp (JString s) k = Inr (indexed s (\<lambda>c. JString [c]) k)"
| "getProp (JArray xs) k = Inr (indexed xs (\<lambda>x. x) k)"
| "getProp (JObject kvs) k = Inr (case map_of kvs k of None \<Rightarrow> JUndefined | Some v \<Rightarrow> v)"

fun getPath :: "jsval \<Rightarrow> jsstring list \<Rightarrow> js_error + jsval" where
  "getPath v [] = Inr v"
| "getPath v (k # ks) = thenE (getProp v k) (\<lambda>w. getPath w ks)"

text \<open>
  \<open>String(v)\<close>, as a template literal applies it. An array joins its elements with
  commas, \<open>null\<close> and \<open>undefined\<close> elements as the empty string. A parsed object is
  \<open>[object Object]\<close>, unless it has a property \<open>toString\<close> of its own: that one is no
  function, and the conversion throws.
\<close>

fun toStringJS :: "jsval \<Rightarrow> js_error + jsstring"
  and joinJS :: "jsval list \<Rightarrow> js_error + jsstring" where
  "toStringJS JUndefined = Inr (str ''undefined'')"
| "toStringJS JNull = Inr (str ''null'')"
| "toStringJS (JBool b) = Inr (if b then str ''true'' else str ''false'')"
| "toStringJS (JNumber r) = Inr r"
| "toStringJS (JString s) = Inr s"
| "toStringJS (JArray xs) = joinJS xs"
| "toStringJS (JObject kvs) =
     (if map_of kvs (str ''toString'') = None then Inr (str ''[object Object]'') else Inl TypeError)"
| "joinJS [] = Inr []"
| "joinJS (x # xs) =
     thenE (if x = JUndefined \<or> x = JNull then Inr [] else toStringJS x) (\<lambda>t.
       if xs = [] then Inr t else thenE (joinJS xs) (\<lambda>r. Inr (t @ str '','' @ r)))"

text \<open>\<open>v.trim()\<close>: only a string has the method.\<close>

fun callTrim :: "jsval \<Rightarrow> js_error + jsstring" where
  "callTrim (JString s) = Inr (trim s)"
| "callTrim v = Inl TypeError"

subsection \<open>Differences that immutable variables may cause\<close>

text \<open>
  \<^verbatim>\<open>function probablyImmutables(bytecode1: string, bytecode2: string): boolean {\<close>
  \<^verbatim>\<open>    return bytecode1 && bytecode2 &&\<close>
  \<^verbatim>\<open>        (bytecode1.length === bytecode2.length) &&\<close>
  \<^verbatim>\<open>        (bytecode1 !== bytecode2);\<close>
  The value returned is the value of the \<open>&&\<close> chain; the declared type is erased
  when the program runs.
\<close>

definition probablyImmutables :: "jsstring \<Rightarrow> jsstring \<Rightarrow> jsval" where
  "probablyImmutables bytecode1 bytecode2 =
     js_and (js_and (js_and (JString bytecode1) (JString bytecode2))
                    (JBool (length bytecode1 = length bytecode2)))
            (JBool (bytecode1 \<noteq> bytecode2))"

section \<open>The world around the recompilation module\<close>

text \<open>
  What the module reaches outside itself is a parameter of the model: the environment
  variables, Node's \<open>path\<close>, \<open>fs\<close> and \<open>child_process\<close>, \<open>node-fetch\<close>, the \<open>solc\<close>
  package, \<open>JSON\<close>, and \<open>reformatMetadata\<close> of the core library. The file system is a
  state \<open>'fs\<close> that the file-system calls read and change.
\<close>

type_synonym buffer = "8 word list"

text \<open>A loaded compiler module, by its \<open>compile\<close> method.\<close>

type_synonym soljson = "jsstring \<Rightarrow> js_error + jsstring"

text \<open>
  What \<open>await fetch(uri)\<close> gives: the promise rejects, or there is a response with a
  status and a body, which \<open>res.buffer()\<close> reads (and may fail to).
\<close>

datatype fetch_result =
    Rejected js_error
  | Response nat "js_error + buffer"

text \<open>
  What \<open>spawnSync\<close> returns. \<open>stdout\<close> is the text of the output buffer, \<open>None\<close> when
  there is no buffer (\<open>null\<close>: the process could not be started); a process that
  writes nothing leaves an empty buffer, which is \<open>Some []\<close>. \<open>error\<close> is the error
  object of a failed start.
\<close>

record spawn_result =
  stdout :: "jsstring option"
  stderr :: "jsstring option"
  error :: "jsstring option"

datatype level = Info | Err

datatype logmsg =
    NoMsg
  | Msg jsstring
  | MsgError jsstring \<comment> \<open>an error object handed to the logger\<close>

datatype log_entry = Log level "(string \<times> jsval) list" logmsg

datatype request =
    Fetch jsstring \<comment> \<open>\<open>fetch(uri)\<close>\<close>
  | LoadRemoteVersion jsstring \<comment> \<open>\<open>solc.loadRemoteVersion(version, ...)\<close>\<close>

text \<open>
  The contract metadata. The module reads \<open>metadata.compiler.version\<close> from it, a
  string in the metadata the compiler writes, and hands the whole to \<open>reformatMetadata\<close>.
\<close>

record 'm contract_metadata =
  compiler_version :: jsstring \<comment> \<open>\<open>metadata.compiler.version\<close>\<close>
  document :: 'm \<comment> \<open>the rest, which only \<open>reformatMetadata\<close> reads\<close>

text \<open>
  \<open>require_soljson\<close> is \<open>solc.setupMethods(require(soljsonPath))\<close>, and
  \<open>loadRemoteVersion\<close> is \<open>solc.loadRemoteVersion\<close> with its callback: an error or a
  compiler module. \<open>reformatMetadata\<close> is handed the logger; it returns what it wrote
  next to its result.
\<close>

record ('fs, 'm, 'src) platform =
  process_env :: "string \<Rightarrow> jsstring option"
  path_join :: "jsstring \<Rightarrow> jsstring \<Rightarrow> jsstring"
  path_resolve :: "jsstring \<Rightarrow> jsstring \<Rightarrow> jsstring"
  path_dirname :: "jsstring \<Rightarrow> jsstring"
  encodeURIComponent :: "jsstring \<Rightarrow> js_error + jsstring"
  existsSync :: "'fs \<Rightarrow> jsstring \<Rightarrow> bool"
  mkdirSync :: "'fs \<Rightarrow> jsstring \<Rightarrow> js_error + 'fs"
  writeFileSync :: "'fs \<Rightarrow> jsstring \<Rightarrow> buffer \<Rightarrow> js_error + 'fs"
  fetch :: "jsstring \<Rightarrow> fetch_result"
  spawnSync :: "'fs \<Rightarrow> jsstring \<Rightarrow> jsstring list \<Rightarrow> jsstring \<Rightarrow> spawn_result"
  require_soljson :: "'fs \<Rightarrow> jsstring \<Rightarrow> js_error + soljson"
  loadRemoteVersion :: "jsstring \<Rightarrow> js_error + soljson"
  JSON_stringify :: "jsval \<Rightarrow> jsstring"
  JSON_parse :: "jsstring \<Rightarrow> js_error + jsval"
  reformatMetadata ::
    "'m contract_metadata \<Rightarrow> 'src \<Rightarrow> (js_error + jsval \<times> jsstring \<times> jsstring) \<times> log_entry list"

text \<open>
  The state a call runs in: the file system, the log written so far, and the remote
  requests issued so far.
\<close>

record 'fs state =
  fs :: 'fs
  logs :: "log_entry list"
  requests :: "request list"

definition log_info :: "(string \<times> jsval) list \<Rightarrow> jsstring \<Rightarrow> 'fs state \<Rightarrow> 'fs state" where
  "log_info entries m s = s\<lparr>logs := logs s @ [Log Info entries (Msg m)]\<rparr>"

definition log_error :: "(string \<times> jsval) list \<Rightarrow> logmsg \<Rightarrow> 'fs state \<Rightarrow> 'fs state" where
  "log_error entries m s = s\<lparr>logs := logs s @ [Log Err entries m]\<rparr>"

definition request :: "request \<Rightarrow> 'fs state \<Rightarrow> 'fs state" where
  "request r s = s\<lparr>requests := requests s @ [r]\<rparr>"

text \<open>A step that may throw, followed by the rest; a throw keeps the state it left.\<close>

definition andThen ::
  "('e + 'a) \<times> 's \<Rightarrow> ('a \<Rightarrow> 's \<Rightarrow> ('e + 'b) \<times> 's) \<Rightarrow> ('e + 'b) \<times> 's" where
  "andThen m f = (case m of (Inl e, s) \<Rightarrow> (Inl e, s) | (Inr a, s) \<Rightarrow> f a s)"

text \<open>\<open>process.env.X || d\<close>: an unset or empty variable gives the default.\<close>

definition or_default :: "jsstring option \<Rightarrow> jsstring \<Rightarrow> jsstring" where
  "or_default v d = (case v of None \<Rightarrow> d | Some x \<Rightarrow> if x = [] then d else x)"

section \<open>Compiler locator\<close>

definition GITHUB_SOLC_REPO :: jsstring where
  "GITHUB_SOLC_REPO = str ''https://github.com/ethereum/solc-bin/raw/gh-pages/linux-amd64/''"

definition StatusCodes_OK :: nat where
  "StatusCodes_OK = 200"

definition fetchSolcFromGitHub ::
  "('fs, 'm, 'src) platform \<Rightarrow> jsstring \<Rightarrow> jsstring \<Rightarrow> jsstring \<Rightarrow> 'fs state
    \<Rightarrow> (js_error + bool) \<times> 'fs state" where
  "fetchSolcFromGitHub P solcPath version fileName s =
     (case encodeURIComponent P fileName of
        Inl e \<Rightarrow> (Inl e, s)
      | Inr encoded \<Rightarrow>
          (let githubSolcURI = GITHUB_SOLC_REPO @ encoded;
               logObject = [(''loc'', JString (str ''[RECOMPILE]'')), (''version'', JString version),
                            (''githubSolcURI'', JString githubSolcURI)];
               s1 = log_info logObject (str ''Fetching executable solc from GitHub'') s;
               s2 = request (Fetch githubSolcURI) s1
           in case fetch P githubSolcURI of
                Rejected e \<Rightarrow> (Inl e, s2)
              | Response status body \<Rightarrow>
                  if status = StatusCodes_OK then
                    (let s3 = log_info logObject
                                (str ''Successfully fetched executable solc from GitHub'') s2
                     in case mkdirSync P (fs s3) (path_dirname P solcPath) of
                          Inl e \<Rightarrow> (Inl e, s3)
                        | Inr fs1 \<Rightarrow>
                            (case body of
                               Inl e \<Rightarrow> (Inl e, s3\<lparr>fs := fs1\<rparr>)
                             | Inr buffer \<Rightarrow>
                                 (case writeFileSync P fs1 solcPath buffer of
                                    Inl e \<Rightarrow> (Inl e, s3\<lparr>fs := fs1\<rparr>)
                                  | Inr fs2 \<Rightarrow> (Inr True, s3\<lparr>fs := fs2\<rparr>))))
                  else
                    (Inr False,
                     log_error logObject (Msg (str ''Failed fetching executable solc from GitHub'')) s2)))"

text \<open>\<^verbatim>\<open>const fileName = `solc-linux-amd64-v${version}`;\<close>\<close>

definition solcFileName :: "jsstring \<Rightarrow> jsstring" where
  "solcFileName version = str ''solc-linux-amd64-v'' @ version"

text \<open>The loop over \<open>repoPaths\<close>: the first path that exists is returned.\<close>

fun searchRepos ::
  "('fs, 'm, 'src) platform \<Rightarrow> 'fs \<Rightarrow> jsstring \<Rightarrow> jsstring list \<Rightarrow> jsstring option" where
  "searchRepos P f fileName [] = None"
| "searchRepos P f fileName (repoPath # rest) =
     (let solcPath = path_join P repoPath fileName
      in if existsSync P f solcPath then Some solcPath else searchRepos P f fileName rest)"

definition tmpSolcRepo :: "('fs, 'm, 'src) platform \<Rightarrow> jsstring" where
  "tmpSolcRepo P =
     or_default (process_env P ''SOLC_REPO_TMP'') (path_join P (str ''/tmp'') (str ''solc-repo''))"

definition repoPaths :: "('fs, 'm, 'src) platform \<Rightarrow> jsstring list" where
  "repoPaths P = [tmpSolcRepo P, or_default (process_env P ''SOLC_REPO'') (str ''solc-repo'')]"

text \<open>The result is a path, or \<open>null\<close>, which is \<open>None\<close>.\<close>

definition getSolcExecutable ::
  "('fs, 'm, 'src) platform \<Rightarrow> jsstring \<Rightarrow> 'fs state \<Rightarrow> (js_error + jsstring option) \<times> 'fs state" where
  "getSolcExecutable P version s =
     (let fileName = solcFileName version
      in case searchRepos P (fs s) fileName (repoPaths P) of
           Some solcPath \<Rightarrow> (Inr (Some solcPath), s)
         | None \<Rightarrow>
             (let tmpSolcPath = path_join P (tmpSolcRepo P) fileName
              in andThen (fetchSolcFromGitHub P tmpSolcPath version fileName s)
                   (\<lambda>success s1. (Inr (if success then Some tmpSolcPath else None), s1))))"

text \<open>
  The version as \<open>getSolcJs\<close> uses it:
  \<^verbatim>\<open>version = version.trim();\<close>
  \<^verbatim>\<open>if (version !== "latest" && !version.startsWith("v")) { version = "v" + version; }\<close>
\<close>

definition getSolcJs_version :: "jsstring \<Rightarrow> jsstring" where
  "getSolcJs_version version0 =
     (let version = trim version0
      in if version \<noteq> str ''latest'' \<and> \<not> startsWith version (str ''v'')
         then str ''v'' @ version else version)"

text \<open>The argument is \<open>None\<close> when the caller leaves it out: the default is \<open>latest\<close>.\<close>

definition getSolcJs ::
  "('fs, 'm, 'src) platform \<Rightarrow> jsstring option \<Rightarrow> 'fs state \<Rightarrow> (js_error + soljson) \<times> 'fs state" where
  "getSolcJs P versionArg s =
     (let version = getSolcJs_version (case versionArg of None \<Rightarrow> str ''latest'' | Some v \<Rightarrow> v);
          soljsonRepo = or_default (process_env P ''SOLJSON_REPO'') (str ''soljson-repo'');
          soljsonPath = path_resolve P soljsonRepo (str ''soljson-'' @ version @ str ''.js'');
          loc = (''loc'', JString (str ''[GET_SOLC]''));
          s1 = log_info [loc, (''target'', JString soljsonPath)] (str ''Searching for js solc locally'') s
      in if existsSync P (fs s1) soljsonPath then
           (require_soljson P (fs s1) soljsonPath,
            log_info [loc] (str ''Found js solc locally'') s1)
         else
           (let s2 = log_info [loc, (''version'', JString version)]
                       (str ''Searching for js solc remotely'') s1;
                s3 = request (LoadRemoteVersion version) s2
            in case loadRemoteVersion P version of
                 Inl e \<Rightarrow>
                   (Inl e,
                    log_error [loc, (''version'', JString version)]
                      (Msg (str ''Could not find solc remotely'')) s3)
               | Inr soljson \<Rightarrow>
                   (Inr soljson,
                    log_info [loc, (''version'', JString version)] (str ''Found solc remotely'') s3)))"

section \<open>Compiler invoker\<close>

text \<open>
  \<open>if (solcPath)\<close> takes the executable when the locator gave a path that is not the
  empty string, and the compiler module otherwise. \<open>!shellOutputBuffer.stdout\<close> holds
  when there is no output buffer; a buffer, also an empty one, is an object and truthy.
\<close>

definition useCompiler ::
  "('fs, 'm, 'src) platform \<Rightarrow> jsstring \<Rightarrow> jsval \<Rightarrow> 'fs state \<Rightarrow> (js_error + jsstring) \<times> 'fs state" where
  "useCompiler P version input s =
     (let inputStringified = JSON_stringify P input;
          withModule = (\<lambda>s1. andThen (getSolcJs P (Some version) s1)
                                (\<lambda>soljson s2. (soljson inputStringified, s2)));
          withExecutable = (\<lambda>solcPath s1.
            let logObject = [(''loc'', JString (str ''[RECOMPILE]'')), (''version'', JString version),
                             (''solcPath'', JString solcPath)];
                s2 = log_info logObject (str ''Compiling with external executable'') s1;
                shellOutputBuffer =
                  spawnSync P (fs s2) solcPath [str ''--standard-json''] inputStringified
            in case stdout shellOutputBuffer of
                 None \<Rightarrow>
                   (Inl (Error (str ''Recompilation error'')),
                    log_error logObject
                      (case error shellOutputBuffer of
                         Some e \<Rightarrow> MsgError e
                       | None \<Rightarrow> Msg (str ''Recompilation error'')) s2)
               | Some out \<Rightarrow> (Inr out, s2))
      in andThen (getSolcExecutable P version s) (\<lambda>found s1.
           case found of
             None \<Rightarrow> withModule s1
           | Some solcPath \<Rightarrow> if solcPath = [] then withModule s1 else withExecutable solcPath s1))"

section \<open>Recompilation and output extraction\<close>

record RecompilationResult =
  bytecode :: jsstring
  deployedBytecode :: jsstring
  metadata :: jsstring

text \<open>
  \<^verbatim>\<open>!output.contracts || !output.contracts[fileName] || !output.contracts[fileName][contractName]\<close>
\<close>

definition targetMissing :: "jsval \<Rightarrow> jsstring \<Rightarrow> jsstring \<Rightarrow> js_error + bool" where
  "targetMissing output fileName contractName =
     thenE (getProp output (str ''contracts'')) (\<lambda>contracts.
       if \<not> truthy contracts then Inr True
       else thenE (getProp contracts fileName) (\<lambda>file.
         if \<not> truthy file then Inr True
         else thenE (getProp file contractName) (\<lambda>contract. Inr (\<not> truthy contract))))"

text \<open>
  \<^verbatim>\<open>output.errors.filter((e: any) => e.severity === "error").map((e: any) => e.message)\<close>
  Only an array has \<open>filter\<close>.
\<close>

fun filterErrors :: "jsval list \<Rightarrow> js_error + jsval list" where
  "filterErrors [] = Inr []"
| "filterErrors (e # es) =
     thenE (getProp e (str ''severity'')) (\<lambda>severity.
       thenE (filterErrors es) (\<lambda>kept.
         Inr (if severity = JString (str ''error'') then e # kept else kept)))"

fun mapMessages :: "jsval list \<Rightarrow> js_error + jsval list" where
  "mapMessages [] = Inr []"
| "mapMessages (e # es) =
     thenE (getProp e (str ''message'')) (\<lambda>m. thenE (mapMessages es) (\<lambda>ms. Inr (m # ms)))"

definition errorMessages :: "jsval \<Rightarrow> js_error + jsval list" where
  "errorMessages output =
     thenE (getProp output (str ''errors'')) (\<lambda>errors.
       case errors of
         JArray es \<Rightarrow> thenE (filterErrors es) mapMessages
       | _ \<Rightarrow> Inl TypeError)"

definition contractResult :: "jsval \<Rightarrow> js_error + RecompilationResult" where
  "contractResult contract =
     thenE (getPath contract [str ''evm'', str ''bytecode'', str ''object'']) (\<lambda>b.
     thenE (toStringJS b) (\<lambda>bytecodeText.
     thenE (getPath contract [str ''evm'', str ''deployedBytecode'', str ''object'']) (\<lambda>d.
     thenE (toStringJS d) (\<lambda>deployedText.
     thenE (getProp contract (str ''metadata'')) (\<lambda>m.
     thenE (callTrim m) (\<lambda>trimmed.
       Inr \<lparr>bytecode = str ''0x'' @ bytecodeText,
            deployedBytecode = str ''0x'' @ deployedText,
            metadata = trimmed\<rparr>))))))"

text \<open>The part of \<open>recompile\<close> after \<open>JSON.parse\<close>.\<close>

definition recompile_output ::
  "jsval \<Rightarrow> jsstring \<Rightarrow> jsstring \<Rightarrow> jsstring \<Rightarrow> 'fs state
    \<Rightarrow> (js_error + RecompilationResult) \<times> 'fs state" where
  "recompile_output output fileName contractName version s =
     (case targetMissing output fileName contractName of
        Inl e \<Rightarrow> (Inl e, s)
      | Inr True \<Rightarrow>
          (case errorMessages output of
             Inl e \<Rightarrow> (Inl e, s)
           | Inr errors \<Rightarrow>
               (Inl (Error (str ''Recompilation error (probably caused by invalid metadata)'')),
                log_error [(''loc'', JString (str ''[RECOMPILE]'')), (''fileName'', JString fileName),
                           (''contractName'', JString contractName), (''version'', JString version),
                           (''errors'', JArray errors)] NoMsg s))
      | Inr False \<Rightarrow>
          (thenE (getPath output [str ''contracts'', fileName, contractName]) contractResult, s))"

text \<open>\<^verbatim>\<open>log.info({ loc, fileName, contractName, version }, 'Recompiling');\<close>\<close>

definition recompiling :: "jsstring \<Rightarrow> jsstring \<Rightarrow> jsstring \<Rightarrow> 'fs state \<Rightarrow> 'fs state" where
  "recompiling fileName contractName version s =
     log_info [(''loc'', JString (str ''[RECOMPILE]'')), (''fileName'', JString fileName),
               (''contractName'', JString contractName), (''version'', JString version)]
       (str ''Recompiling'') s"

text \<open>
  \<open>reformatMetadata\<close> is handed the logger: what it wrote comes back with its result.
\<close>

definition recompile ::
  "('fs, 'm, 'src) platform \<Rightarrow> 'm contract_metadata \<Rightarrow> 'src \<Rightarrow> 'fs state
    \<Rightarrow> (js_error + RecompilationResult) \<times> 'fs state" where
  "recompile P meta sources s =
     (case reformatMetadata P meta sources of
        (Inl e, written) \<Rightarrow> (Inl e, s\<lparr>logs := logs s @ written\<rparr>)
      | (Inr (input, fileName, contractName), written) \<Rightarrow>
          (let version = compiler_version meta;
               s1 = recompiling fileName contractName version (s\<lparr>logs := logs s @ written\<rparr>)
           in andThen (useCompiler P version input s1) (\<lambda>compiled s2.
                case JSON_parse P compiled of
                  Inl e \<Rightarrow> (Inl e, s2)
                | Inr output \<Rightarrow> recompile_output output fileName contractName version s2)))"

section \<open>A small world to run the module in\<close>

text \<open>
  A file system that is the list of the paths that exist, no environment variables, an
  archive that answers 404, a compiler that prints \<open>{}\<close>, a parser that rejects the
  empty text, and metadata whose target is contract \<open>A\<close> of \<open>A.sol\<close>. The examples
  below change one part of it at a time.
\<close>

definition demo :: "(jsstring list, unit, unit) platform" where
  "demo =
     \<lparr>process_env = (\<lambda>name. None),
      path_join = (\<lambda>dir file. dir @ str ''/'' @ file),
      path_resolve = (\<lambda>dir file. str ''/srv/'' @ dir @ str ''/'' @ file),
      path_dirname = (\<lambda>path. rev (drop 1 (dropWhile (\<lambda>c. c \<noteq> 0x2F) (rev path)))),
      encodeURIComponent = (\<lambda>name. Inr (concat (map (\<lambda>c. if c = 0x2B then str ''%2B'' else [c]) name))),
      existsSync = (\<lambda>files path. path \<in> set files),
      mkdirSync = (\<lambda>files path. Inr (path # files)),
      writeFileSync = (\<lambda>files path content. Inr (path # files)),
      fetch = (\<lambda>uri. Response 404 (Inr [])),
      spawnSync = (\<lambda>files path args input. \<lparr>stdout = Some (str ''{}''), stderr = Some [], error = None\<rparr>),
      require_soljson = (\<lambda>files path. Inr (\<lambda>input. Inr (str ''{}''))),
      loadRemoteVersion = (\<lambda>version. Inr (\<lambda>input. Inr (str ''{}''))),
      JSON_stringify = (\<lambda>input. str ''{}''),
      JSON_parse = (\<lambda>text. if text = [] then Inl (SyntaxError (str ''Unexpected end of JSON input''))
                           else Inr (JObject [])),
      reformatMetadata = (\<lambda>meta sources. (Inr (JObject [], str ''A.sol'', str ''A''), []))\<rparr>"

fun isErr :: "log_entry \<Rightarrow> bool" where
  "isErr (Log Err entries m) = True"
| "isErr (Log Info entries m) = False"

definition initial :: "jsstring list \<Rightarrow> jsstring list state" where
  "initial files = \<lparr>fs = files, logs = [], requests = []\<rparr>"

definition demoVersion :: jsstring where
  "demoVersion = str ''0.6.6+commit.6c089d02''"

definition demoMetadata :: "unit contract_metadata" where
  "demoMetadata = \<lparr>compiler_version = demoVersion, document = ()\<rparr>"

definition demoTmpPath :: jsstring where
  "demoTmpPath = str ''/tmp/solc-repo/solc-linux-amd64-v0.6.6+commit.6c089d02''"


text \<open>
  The compiler output of the end-to-end scenario:
  \<^verbatim>\<open>{"contracts": {"A.sol": {"A": {"evm": {"bytecode": {"object": "6001"},\<close>
  \<^verbatim>\<open>   "deployedBytecode": {"object": "6002"}}, "metadata": "  {}  "}}}}\<close>
\<close>

definition exampleOutput :: jsval where
  "exampleOutput =
     JObject [(str ''contracts'',
       JObject [(str ''A.sol'',
         JObject [(str ''A'',
           JObject [(str ''evm'',
                     JObject [(str ''bytecode'', JObject [(str ''object'', JString (str ''6001''))]),
                              (str ''deployedBytecode'', JObject [(str ''object'', JString (str ''6002''))])]),
                    (str ''metadata'', JString (str ''  {}  ''))])])])]"

text \<open>
  A clean compilation of another contract: \<open>B\<close> of \<open>A.sol\<close> is there, \<open>A\<close> is not, and
  without warnings there is no \<open>errors\<close> array.
  \<^verbatim>\<open>{"contracts": {"A.sol": {"B": {}}}}\<close>
\<close>

definition outputWithoutTarget :: jsval where
  "outputWithoutTarget =
     JObject [(str ''contracts'', JObject [(str ''A.sol'', JObject [(str ''B'', JObject [])])])]"

text \<open>The archive cannot be reached: the request itself fails.\<close>

definition demoOffline :: "(jsstring list, unit, unit) platform" where
  "demoOffline = demo\<lparr>fetch := (\<lambda>uri. Rejected (FetchError (str ''connect ECONNREFUSED'')))\<rparr>"

text \<open>The compiler starts, writes to its error stream only, and ends.\<close>

definition demoSilent :: "(jsstring list, unit, unit) platform" where
  "demoSilent =
     demo\<lparr>spawnSync := (\<lambda>files path args input.
             \<lparr>stdout = Some [], stderr = Some (str ''Illegal instruction''), error = None\<rparr>)\<rparr>"

text \<open>The compiler cannot be started.\<close>

definition demoNoSpawn :: "(jsstring list, unit, unit) platform" where
  "demoNoSpawn =
     demo\<lparr>spawnSync := (\<lambda>files path args input.
             \<lparr>stdout = None, stderr = None, error = Some (str ''spawnSync EACCES'')\<rparr>)\<rparr>"

definition demoExample :: "(jsstring list, unit, unit) platform" where
  "demoExample = demo\<lparr>JSON_parse := (\<lambda>text. Inr exampleOutput)\<rparr>"

definition demoWithoutTarget :: "(jsstring list, unit, unit) platform" where
  "demoWithoutTarget = demo\<lparr>JSON_parse := (\<lambda>text. Inr outputWithoutTarget)\<rparr>"

section \<open>Facts about strings\<close>

lemma str_0x: "str ''0x'' = [0x30, 0x78]" "str ''0X'' = [0x30, 0x58]"
  by (simp_all add: str_def)

lemma hexDigit_not_white: "hexDigit c = Some d \<Longrightarrow> \<not> isWhiteSpace c"
  by (auto simp: hexDigit_def isWhiteSpace_def word_le_nat_alt split: if_splits)

lemma hexDigit_not_sign:
  "hexDigit c = Some d \<Longrightarrow> c \<noteq> 0x2B \<and> c \<noteq> 0x2D \<and> c \<noteq> 0x78 \<and> c \<noteq> 0x58"
  by (auto simp: hexDigit_def split: if_splits)

lemma trimStart_Nil: "trimStart [] = []"
  by (simp add: trimStart_def)

lemma trimStart_core:
  assumes "list_all isWhiteSpace l" "t \<noteq> []" "\<not> isWhiteSpace (hd t)"
  shows "trimStart (l @ t @ r) = t @ r"
proof -
  obtain a u where t: "t = a # u" using assms(2) by (cases t) auto
  have "dropWhile isWhiteSpace (l @ t @ r) = dropWhile isWhiteSpace (t @ r)"
    using assms(1) by (intro dropWhile_append2) (simp add: list_all_iff)
  then show ?thesis using assms(3) t by (simp add: trimStart_def)
qed

text \<open>\<open>trim\<close> takes the white space off both ends and nothing else.\<close>

lemma trim_core:
  assumes "list_all isWhiteSpace l" "list_all isWhiteSpace r"
    and "t = [] \<or> (\<not> isWhiteSpace (hd t) \<and> \<not> isWhiteSpace (last t))"
  shows "trim (l @ t @ r) = t"
proof (cases "t = []")
  case True
  then have "trimStart (l @ t @ r) = []"
    using assms(1,2) by (simp add: trimStart_def list_all_iff dropWhile_eq_Nil_conv)
  then show ?thesis using True by (simp add: trim_def trimStart_Nil)
next
  case False
  then have front: "trimStart (l @ t @ r) = t @ r"
    using assms by (intro trimStart_core) auto
  have "trimStart (rev r @ rev t @ []) = rev t @ []"
    using assms False by (intro trimStart_core) (auto simp: hd_rev)
  then show ?thesis using front by (simp add: trim_def)
qed

text \<open>Every string is white space, its trimmed core, and white space.\<close>

lemma trim_decomposition:
  "\<exists>l r. raw = l @ trim raw @ r \<and> list_all isWhiteSpace l \<and> list_all isWhiteSpace r
     \<and> (trim raw = [] \<or> (\<not> isWhiteSpace (hd (trim raw)) \<and> \<not> isWhiteSpace (last (trim raw))))"
proof -
  define l where "l = takeWhile isWhiteSpace raw"
  define d where "d = dropWhile isWhiteSpace raw"
  define r where "r = rev (takeWhile isWhiteSpace (rev d))"
  have t: "trim raw = rev (dropWhile isWhiteSpace (rev d))"
    by (simp add: trim_def trimStart_def d_def)
  have "rev (takeWhile isWhiteSpace (rev d) @ dropWhile isWhiteSpace (rev d)) = d"
    by (simp only: takeWhile_dropWhile_id rev_rev_ident)
  then have d: "d = trim raw @ r" by (simp only: rev_append t r_def)
  have "raw = l @ d" by (simp add: l_def d_def)
  then have raw: "raw = l @ trim raw @ r" using d by simp
  have wl: "list_all isWhiteSpace l" by (auto simp: l_def list_all_iff dest: set_takeWhileD)
  have wr: "list_all isWhiteSpace r" by (auto simp: r_def list_all_iff dest: set_takeWhileD)
  have ends: "\<not> isWhiteSpace (hd (trim raw)) \<and> \<not> isWhiteSpace (last (trim raw))"
    if ne: "trim raw \<noteq> []"
  proof -
    have "d \<noteq> []" using d ne by simp
    then have "\<not> isWhiteSpace (hd d)" unfolding d_def by (rule hd_dropWhile)
    moreover have "hd d = hd (trim raw)" using d ne by simp
    moreover have "dropWhile isWhiteSpace (rev d) \<noteq> []" using ne t by simp
    then have "\<not> isWhiteSpace (hd (dropWhile isWhiteSpace (rev d)))" by (rule hd_dropWhile)
    then have "\<not> isWhiteSpace (last (trim raw))" using ne by (simp add: t last_rev)
    ultimately show ?thesis by simp
  qed
  show ?thesis using raw wl wr ends by blast
qed

lemma startsWith_v: "startsWith t (str ''v'') \<longleftrightarrow> (\<exists>u. t = str ''v'' @ u)"
  by (cases t) (auto simp: startsWith_def str_def)

lemma parseInt16_hex4:
  assumes "hexDigit h1 = Some d1" "hexDigit h2 = Some d2" "hexDigit h3 = Some d3"
    "hexDigit h4 = Some d4"
  shows "parseInt16 [h1, h2, h3, h4] = Some (int (((d1 * 16 + d2) * 16 + d3) * 16 + d4))"
  using assms hexDigit_not_white[OF assms(1)] hexDigit_not_sign[OF assms(1)]
    hexDigit_not_sign[OF assms(2)]
  by (simp add: parseInt16_def trimStart_def str_0x isHexDigit_def hexValue_def)

lemma parseInt16_no_digit:
  assumes "s = [] \<or> (\<not> isHexDigit (hd s) \<and> \<not> isWhiteSpace (hd s) \<and> hd s \<noteq> 0x2B \<and> hd s \<noteq> 0x2D)"
  shows "parseInt16 s = None"
proof -
  have zero: "isHexDigit 0x30" by (simp add: isHexDigit_def hexDigit_def)
  show ?thesis
    using assms zero by (cases s) (auto simp: parseInt16_def trimStart_def str_0x Let_def)
qed

lemma slice_from_tail: "slice_from b (Some (- 4)) = drop (length b - 4) b"
proof -
  have "nat (max (int (length b) - 4) 0) = length b - 4" by arith
  then show ?thesis
    by (simp add: slice_from_def relativeIndex_def toIntegerOrInfinity_def)
qed

lemma slice_prefix: "prefix (slice s (Some 0) e) s"
  by (simp add: slice_def relativeIndex_def toIntegerOrInfinity_def take_is_prefix Let_def)

section \<open>The bytecode comparator\<close>

lemma metadataSize_NaN_empty: "metadataSize b = None \<Longrightarrow> getBytecodeWithoutMetadata b = []"
  by (simp add: getBytecodeWithoutMetadata_def slice_def relativeIndex_def
      toIntegerOrInfinity_def minus_num_def)

lemma short_input:
  assumes "metadataSize b = Some m" "int (length b) < m"
  shows "getBytecodeWithoutMetadata b = take (nat (2 * int (length b) - m)) b"
proof -
  have "nat (max (int (length b) + (int (length b) - m)) 0) = nat (2 * int (length b) - m)"
    by arith
  then show ?thesis
    using assms
    by (simp add: getBytecodeWithoutMetadata_def slice_def relativeIndex_def
        toIntegerOrInfinity_def minus_num_def Let_def)
qed

text \<open>
  C5. When the last four characters of the bytecode are hexadecimal digits, read
  big-endian as the number \<open>n\<close>, and the bytecode has at least \<open>2 n + 4\<close> characters,
  \<open>getBytecodeWithoutMetadata\<close> returns the bytecode without its last \<open>2 n + 4\<close>
  characters: the result is that much shorter, and putting the removed tail back gives
  the input.
\<close>

theorem getBytecodeWithoutMetadata_strips_tail:
  assumes tail: "drop (length b - 4) b = [h1, h2, h3, h4]"
    and digits: "hexDigit h1 = Some d1" "hexDigit h2 = Some d2" "hexDigit h3 = Some d3"
      "hexDigit h4 = Some d4"
    and n: "n = ((d1 * 16 + d2) * 16 + d3) * 16 + d4"
    and len: "2 * n + 4 \<le> length b"
  shows "getBytecodeWithoutMetadata b = take (length b - (2 * n + 4)) b
       \<and> length (getBytecodeWithoutMetadata b) = length b - (2 * n + 4)
       \<and> getBytecodeWithoutMetadata b @ drop (length b - (2 * n + 4)) b = b"
proof -
  have "metadataSize b = Some (int (2 * n + 4))"
    using parseInt16_hex4[OF digits] tail n
    by (simp add: metadataSize_def slice_from_tail num_plus_def num_times_def)
  moreover have "nat (int (length b) - int (2 * n + 4)) = length b - (2 * n + 4)" by arith
  ultimately have "getBytecodeWithoutMetadata b = take (length b - (2 * n + 4)) b"
    using len
    by (simp add: getBytecodeWithoutMetadata_def slice_def minus_num_def relativeIndex_def
        toIntegerOrInfinity_def)
  then show ?thesis using len by simp
qed

text \<open>
  The scenario of the specification: the tail \<open>0021\<close> is 33, and 70 characters go.
\<close>

theorem getBytecodeWithoutMetadata_strips_tail_witness:
  "getBytecodeWithoutMetadata (str ''60016002'' @ replicate 66 0x61 @ str ''0021'') = str ''60016002''
   \<and> length (getBytecodeWithoutMetadata (str ''60016002'' @ replicate 66 0x61 @ str ''0021''))
       = length (str ''60016002'' @ replicate 66 0x61 @ str ''0021'') - 70"
proof -
  let ?b = "str ''60016002'' @ replicate 66 0x61 @ str ''0021''"
  have tail: "drop (length ?b - 4) ?b = [0x30, 0x30, 0x32, 0x31]" by (simp add: str_def)
  have digits: "hexDigit 0x30 = Some 0" "hexDigit 0x32 = Some 2" "hexDigit 0x31 = Some 1"
    by (simp_all add: hexDigit_def)
  have n: "(33::nat) = ((0 * 16 + 0) * 16 + 2) * 16 + 1" by simp
  have len: "2 * 33 + 4 \<le> length ?b" by (simp add: str_def)
  show ?thesis
    using getBytecodeWithoutMetadata_strips_tail
      [OF tail digits(1) digits(1) digits(2) digits(3) n len]
    by (simp add: str_def)
qed

text \<open>
  C10, as the claim states it, fails. The last four characters of \<open>ab0zzz\<close> are not
  four hexadecimal digits, yet \<open>parseInt\<close> reads the leading \<open>0\<close>: the computed size is
  4, not NaN, and the result is \<open>ab\<close>, not the empty string.
\<close>

theorem getBytecodeWithoutMetadata_partial_hex_counterexample:
  "\<not> list_all isHexDigit (drop (length (str ''ab0zzz'') - 4) (str ''ab0zzz''))
   \<and> metadataSize (str ''ab0zzz'') = Some 4
   \<and> getBytecodeWithoutMetadata (str ''ab0zzz'') = str ''ab''
   \<and> getBytecodeWithoutMetadata (str ''ab0zzz'') \<noteq> []"
  by code_simp

text \<open>
  C10, amended. \<open>getBytecodeWithoutMetadata\<close> is a total function that always returns
  a prefix of its input. For an input shorter than the computed size the negative end
  of the slice counts from the end of the string, and the result is still a prefix.
  Whenever the computed size is NaN the result is the empty string; the size is NaN
  when the input is empty, or when the first of its last four characters is neither a
  hexadecimal digit, nor white space, nor a sign.
\<close>

theorem getBytecodeWithoutMetadata_prefix:
  "prefix (getBytecodeWithoutMetadata b) b
   \<and> (\<forall>m. metadataSize b = Some m \<and> int (length b) < m \<longrightarrow>
          getBytecodeWithoutMetadata b = take (nat (2 * int (length b) - m)) b)
   \<and> (metadataSize b = None \<longrightarrow> getBytecodeWithoutMetadata b = [])
   \<and> (b = [] \<or> (let c = hd (drop (length b - 4) b)
                   in \<not> isHexDigit c \<and> \<not> isWhiteSpace c \<and> c \<noteq> 0x2B \<and> c \<noteq> 0x2D)
        \<longrightarrow> metadataSize b = None)"
proof -
  have pre: "prefix (getBytecodeWithoutMetadata b) b"
    by (simp add: getBytecodeWithoutMetadata_def slice_prefix)
  have nan: "metadataSize b = None"
    if "b = [] \<or> (let c = hd (drop (length b - 4) b)
                   in \<not> isHexDigit c \<and> \<not> isWhiteSpace c \<and> c \<noteq> 0x2B \<and> c \<noteq> 0x2D)"
  proof -
    have "parseInt16 (drop (length b - 4) b) = None"
      using that by (intro parseInt16_no_digit) (auto simp: Let_def)
    then show ?thesis
      by (simp add: metadataSize_def slice_from_tail num_plus_def num_times_def)
  qed
  show ?thesis
    using pre nan short_input metadataSize_NaN_empty by blast
qed

text \<open>
  An input shorter than its computed size (14 for the tail \<open>0005\<close>), and an input
  whose tail starts with \<open>z\<close>.
\<close>

theorem getBytecodeWithoutMetadata_prefix_witness:
  "getBytecodeWithoutMetadata (str ''6001620005'') = str ''600162''
   \<and> prefix (getBytecodeWithoutMetadata (str ''6001620005'')) (str ''6001620005'')
   \<and> metadataSize (str ''6001zzzz'') = None
   \<and> getBytecodeWithoutMetadata (str ''6001zzzz'') = []"
proof -
  have size: "metadataSize (str ''6001620005'') = Some 14 \<and> int (length (str ''6001620005'')) < 14"
    by code_simp
  have z: "let c = hd (drop (length (str ''6001zzzz'') - 4) (str ''6001zzzz''))
           in \<not> isHexDigit c \<and> \<not> isWhiteSpace c \<and> c \<noteq> 0x2B \<and> c \<noteq> 0x2D"
    by code_simp
  have short: "getBytecodeWithoutMetadata (str ''6001620005'')
                 = take (nat (2 * int (length (str ''6001620005'')) - 14)) (str ''6001620005'')"
    using getBytecodeWithoutMetadata_prefix [of "str ''6001620005''"] size by blast
  have "take (nat (2 * int (length (str ''6001620005'')) - 14)) (str ''6001620005'') = str ''600162''"
    by (simp add: str_def)
  then have "getBytecodeWithoutMetadata (str ''6001620005'') = str ''600162''"
    using short by simp
  then show ?thesis
    using getBytecodeWithoutMetadata_prefix [of "str ''6001620005''"]
      getBytecodeWithoutMetadata_prefix [of "str ''6001zzzz''"] z
    by simp
qed

text \<open>
  C6. The claim says the result is false when either string is empty; the docstring
  says \<open>false otherwise\<close> and the declared type is \<open>boolean\<close>. On two empty strings
  the function returns the empty string, which is the value of the \<open>&&\<close> chain.
\<close>

theorem probablyImmutables_empty_returns_string:
  "probablyImmutables [] [] = JString [] \<and> probablyImmutables [] [] \<noteq> JBool False
   \<and> probablyImmutables [] (str ''6001'') = JString []
   \<and> probablyImmutables (str ''6001'') [] = JString []"
  by (simp add: probablyImmutables_def js_and_def str_def)

text \<open>On strings that are not empty the function is the boolean the claim describes.\<close>

lemma probablyImmutables_nonempty:
  assumes "a \<noteq> []" "b \<noteq> []"
  shows "probablyImmutables a b = JBool (length a = length b \<and> a \<noteq> b)"
  using assms by (auto simp: probablyImmutables_def js_and_def)

lemma probablyImmutables_truthy:
  "truthy (probablyImmutables a b) \<longleftrightarrow> a \<noteq> [] \<and> b \<noteq> [] \<and> length a = length b \<and> a \<noteq> b"
  by (auto simp: probablyImmutables_def js_and_def)

section \<open>The version identifier\<close>

text \<open>
  C9. Write the raw version string as white space, a core \<open>t\<close> that neither starts nor
  ends with white space, and white space (every string is of this form, by
  \<open>trim_decomposition\<close>). Then the version \<open>getSolcJs\<close> works with is \<open>t\<close> itself when
  \<open>t\<close> is \<open>latest\<close> or already starts with \<open>v\<close>, and \<open>v\<close> followed by \<open>t\<close> otherwise.
\<close>

theorem getSolcJs_version_canonical:
  assumes "raw = l @ t @ r" "list_all isWhiteSpace l" "list_all isWhiteSpace r"
    and "t = [] \<or> (\<not> isWhiteSpace (hd t) \<and> \<not> isWhiteSpace (last t))"
  shows "getSolcJs_version raw =
           (if t = str ''latest'' then t
            else if (\<exists>u. t = str ''v'' @ u) then t
            else str ''v'' @ t)"
proof -
  have "trim raw = t" using assms by (simp add: trim_core)
  then show ?thesis
    by (simp add: getSolcJs_version_def startsWith_v Let_def)
qed

theorem getSolcJs_version_canonical_witness:
  "getSolcJs_version (str ''  0.6.6+commit.6c089d02 '') = str ''v0.6.6+commit.6c089d02''"
proof -
  have split: "str ''  0.6.6+commit.6c089d02 '' = str ''  '' @ str ''0.6.6+commit.6c089d02'' @ str '' ''"
    by (simp add: str_def)
  have white: "list_all isWhiteSpace (str ''  '')" "list_all isWhiteSpace (str '' '')"
    by (simp_all add: str_def isWhiteSpace_def)
  have core: "str ''0.6.6+commit.6c089d02'' = []
      \<or> (\<not> isWhiteSpace (hd (str ''0.6.6+commit.6c089d02''))
         \<and> \<not> isWhiteSpace (last (str ''0.6.6+commit.6c089d02'')))"
    by (simp add: str_def isWhiteSpace_def)
  have other: "str ''0.6.6+commit.6c089d02'' \<noteq> str ''latest''"
    "\<not> (\<exists>u. str ''0.6.6+commit.6c089d02'' = str ''v'' @ u)"
    by (simp_all add: str_def)
  show ?thesis
    using getSolcJs_version_canonical [OF split white core] other by (simp add: str_def)
qed

lemma v_not_white: "\<not> isWhiteSpace 0x76"
  by (simp add: isWhiteSpace_def)

lemma trim_fixed:
  assumes "t = [] \<or> (\<not> isWhiteSpace (hd t) \<and> \<not> isWhiteSpace (last t))"
  shows "trim t = t"
  using trim_core [of "[]" "[]" t] assms by simp

text \<open>Canonical versions are fixed points: normalising twice changes nothing more.\<close>

lemma getSolcJs_version_idempotent:
  "getSolcJs_version (getSolcJs_version raw) = getSolcJs_version raw"
proof -
  define t where "t = trim raw"
  have ends: "t = [] \<or> (\<not> isWhiteSpace (hd t) \<and> \<not> isWhiteSpace (last t))"
    using trim_decomposition [of raw] by (auto simp: t_def)
  have vstr: "str ''v'' = [0x76]" by (simp add: str_def)
  have latest: "str ''latest'' \<noteq> 0x76 # u" for u by (simp add: str_def)
  consider (latest) "t = str ''latest''" | (v) u where "t \<noteq> str ''latest''" "t = 0x76 # u"
    | (other) "t \<noteq> str ''latest''" "\<not> startsWith t (str ''v'')"
    using startsWith_v [of t] vstr by auto
  then show ?thesis
  proof cases
    case latest
    then have "getSolcJs_version raw = t"
      by (simp add: getSolcJs_version_def t_def[symmetric])
    moreover have "getSolcJs_version t = t"
      using latest trim_fixed [OF ends] by (simp add: getSolcJs_version_def)
    ultimately show ?thesis by simp
  next
    case v
    then have sw: "startsWith t (str ''v'')" by (simp add: startsWith_def str_def)
    then have "getSolcJs_version raw = t"
      by (simp add: getSolcJs_version_def t_def[symmetric])
    moreover have "getSolcJs_version t = t"
      using sw trim_fixed [OF ends] by (simp add: getSolcJs_version_def)
    ultimately show ?thesis by simp
  next
    case other
    then have first: "getSolcJs_version raw = 0x76 # t"
      by (simp add: getSolcJs_version_def t_def[symmetric] vstr)
    have "\<not> isWhiteSpace (last (0x76 # t))"
      using ends v_not_white by auto
    then have "trim (0x76 # t) = 0x76 # t"
      using v_not_white by (intro trim_fixed) simp
    then have "getSolcJs_version (0x76 # t) = 0x76 # t"
      using latest by (simp add: getSolcJs_version_def startsWith_def vstr)
    then show ?thesis using first by simp
  qed
qed

section \<open>The compiler locator\<close>

text \<open>
  C3. The claim says the file name never has a duplicated \<open>v\<close>. \<open>useCompiler\<close> hands
  the same version to \<open>getSolcExecutable\<close> and to \<open>getSolcJs\<close>; \<open>getSolcJs\<close>, whose
  docstring gives the format as \<open>[v]<major>.<minor>.<patch>+commit.<hash>\<close>, leaves a
  version that begins with \<open>v\<close> as it is, while \<open>getSolcExecutable\<close> puts another \<open>v\<close>
  in front: for \<open>v0.6.6+commit.6c089d02\<close> the file name is
  \<open>solc-linux-amd64-vv0.6.6+commit.6c089d02\<close>.
\<close>

theorem solcFileName_duplicates_v:
  "solcFileName (str ''v0.6.6+commit.6c089d02'') = str ''solc-linux-amd64-vv0.6.6+commit.6c089d02''
   \<and> solcFileName (str ''v0.6.6+commit.6c089d02'') \<noteq> str ''solc-linux-amd64-v0.6.6+commit.6c089d02''
   \<and> getSolcJs_version (str ''v0.6.6+commit.6c089d02'') = str ''v0.6.6+commit.6c089d02''"
  by code_simp

text \<open>
  For a version string that does not begin with \<open>v\<close>, exactly one \<open>v\<close> stands between
  \<open>solc-linux-amd64-\<close> and the version.
\<close>

lemma solcFileName_single_v:
  assumes "\<not> (\<exists>u. version = str ''v'' @ u)"
  shows "solcFileName version = str ''solc-linux-amd64-v'' @ version
       \<and> takeWhile (\<lambda>c. c = of_char CHR ''v'')
           (drop (length (str ''solc-linux-amd64-'')) (solcFileName version)) = str ''v''"
  using assms by (cases version) (auto simp: solcFileName_def str_def)

lemma solcFileName_demoVersion:
  "solcFileName demoVersion = str ''solc-linux-amd64-v0.6.6+commit.6c089d02''"
proof -
  have "\<not> (\<exists>u. demoVersion = str ''v'' @ u)" by (simp add: demoVersion_def str_def)
  then show ?thesis
    using solcFileName_single_v [of demoVersion] by (simp add: demoVersion_def str_def)
qed

lemma thenE_simps: "thenE (Inr a) f = f a" "thenE (Inl e) f = Inl e"
  by (simp_all add: thenE_def)



lemma getSolcExecutable_rejected:
  assumes absent: "\<not> existsSync P (fs s) (path_join P (tmpSolcRepo P) (solcFileName version))"
      "\<not> existsSync P (fs s) (path_join P (or_default (process_env P ''SOLC_REPO'') (str ''solc-repo'')) (solcFileName version))"
    and enc: "encodeURIComponent P (solcFileName version) = Inr encoded"
    and net: "fetch P (GITHUB_SOLC_REPO @ encoded) = Rejected e"
  shows "getSolcExecutable P version s =
     (Inl e, request (Fetch (GITHUB_SOLC_REPO @ encoded))
        (log_info [(''loc'', JString (str ''[RECOMPILE]'')), (''version'', JString version),
                            (''githubSolcURI'', JString (GITHUB_SOLC_REPO @ encoded))] (str ''Fetching executable solc from GitHub'') s))"
  using assms
  by (simp add: getSolcExecutable_def repoPaths_def Let_def fetchSolcFromGitHub_def andThen_def)

text \<open>
  C1. The claim says a failed request is logged and falls through to the compiler
  module. In the code \<open>await fetch(githubSolcURI)\<close> stands outside any \<open>try\<close>: when
  the binary is in neither directory and the request is rejected with \<open>e\<close>, the
  locator fails with \<open>e\<close>, and so does \<open>recompile\<close>; the one request issued is the
  fetch, and the compiler module is never asked for.
\<close>

theorem recompile_network_error_surfaces:
  assumes reformat: "reformatMetadata P meta sources = (Inr (input, fileName, contractName), written)"
    and absent: "\<not> existsSync P (fs s) (path_join P (tmpSolcRepo P) (solcFileName (compiler_version meta)))"
      "\<not> existsSync P (fs s) (path_join P (or_default (process_env P ''SOLC_REPO'') (str ''solc-repo'')) (solcFileName (compiler_version meta)))"
    and enc: "encodeURIComponent P (solcFileName (compiler_version meta)) = Inr encoded"
    and net: "fetch P (GITHUB_SOLC_REPO @ encoded) = Rejected e"
  shows "fst (getSolcExecutable P (compiler_version meta) s) = Inl e
       \<and> fst (recompile P meta sources s) = Inl e
       \<and> requests (snd (recompile P meta sources s)) = requests s @ [Fetch (GITHUB_SOLC_REPO @ encoded)]"
proof -
  let ?v = "compiler_version meta"
  let ?s1 = "recompiling fileName contractName ?v (s\<lparr>logs := logs s @ written\<rparr>)"
  have fs1: "fs ?s1 = fs s" by (simp add: recompiling_def log_info_def)
  have r1: "requests ?s1 = requests s" by (simp add: recompiling_def log_info_def)
  have loc: "fst (getSolcExecutable P ?v s) = Inl e"
    using getSolcExecutable_rejected[OF absent enc net] by simp
  have "getSolcExecutable P ?v ?s1 =
     (Inl e, request (Fetch (GITHUB_SOLC_REPO @ encoded))
        (log_info [(''loc'', JString (str ''[RECOMPILE]'')), (''version'', JString ?v),
                            (''githubSolcURI'', JString (GITHUB_SOLC_REPO @ encoded))] (str ''Fetching executable solc from GitHub'') ?s1))"
    using absent enc net by (intro getSolcExecutable_rejected) (simp_all add: fs1)
  then have "recompile P meta sources s = (Inl e, request (Fetch (GITHUB_SOLC_REPO @ encoded))
        (log_info [(''loc'', JString (str ''[RECOMPILE]'')), (''version'', JString ?v),
                            (''githubSolcURI'', JString (GITHUB_SOLC_REPO @ encoded))] (str ''Fetching executable solc from GitHub'') ?s1))"
    using reformat by (simp add: recompile_def useCompiler_def Let_def andThen_def)
  then show ?thesis using loc r1 by (simp add: request_def log_info_def)
qed

theorem recompile_network_error_surfaces_witness:
  "fst (recompile demoOffline demoMetadata () (initial [])) = Inl (FetchError (str ''connect ECONNREFUSED''))
   \<and> requests (snd (recompile demoOffline demoMetadata () (initial [])))
       = [Fetch (str ''https://github.com/ethereum/solc-bin/raw/gh-pages/linux-amd64/solc-linux-amd64-v0.6.6%2Bcommit.6c089d02'')]"
proof -
  have reformat: "reformatMetadata demoOffline demoMetadata () = (Inr (JObject [], str ''A.sol'', str ''A''), [])"
    by (simp add: demoOffline_def demo_def)
  have absent: "\<not> existsSync demoOffline (fs (initial []))
         (path_join demoOffline (tmpSolcRepo demoOffline) (solcFileName (compiler_version demoMetadata)))"
    "\<not> existsSync demoOffline (fs (initial []))
         (path_join demoOffline (or_default (process_env demoOffline ''SOLC_REPO'') (str ''solc-repo''))
            (solcFileName (compiler_version demoMetadata)))"
    by (simp_all add: demoOffline_def demo_def initial_def)
  have enc: "encodeURIComponent demoOffline (solcFileName (compiler_version demoMetadata))
               = Inr (str ''solc-linux-amd64-v0.6.6%2Bcommit.6c089d02'')"
    by code_simp
  have net: "fetch demoOffline (GITHUB_SOLC_REPO @ str ''solc-linux-amd64-v0.6.6%2Bcommit.6c089d02'')
               = Rejected (FetchError (str ''connect ECONNREFUSED''))"
    by (simp add: demoOffline_def demo_def)
  have uri: "GITHUB_SOLC_REPO @ str ''solc-linux-amd64-v0.6.6%2Bcommit.6c089d02''
     = str ''https://github.com/ethereum/solc-bin/raw/gh-pages/linux-amd64/solc-linux-amd64-v0.6.6%2Bcommit.6c089d02''"
    by (simp add: GITHUB_SOLC_REPO_def str_def)
  show ?thesis
    using recompile_network_error_surfaces [OF reformat absent enc net] by (simp add: uri initial_def)
qed

section \<open>The compiler invoker\<close>

text \<open>
  C4. The claim says an invocation whose process writes nothing to its output stream
  fails with \<open>Recompilation error\<close>. The code has the guard for it,
  \<open>if (!shellOutputBuffer.stdout)\<close>, with the log text \<open>Recompilation error\<close> for the
  case without a spawn error, but the guard misses the case: a compiler that starts,
  writes only to its error stream and ends leaves an empty output buffer, the buffer is
  an object and truthy, and \<open>useCompiler\<close> returns the empty text with nothing written
  to the error log. \<open>recompile\<close> then fails in \<open>JSON.parse\<close>.
\<close>

theorem useCompiler_empty_stdout_returns_text:
  "fst (useCompiler demoSilent demoVersion (JObject []) (initial [demoTmpPath])) = Inr []
   \<and> fst (useCompiler demoSilent demoVersion (JObject []) (initial [demoTmpPath]))
       \<noteq> Inl (Error (str ''Recompilation error''))
   \<and> filter isErr (logs (snd (useCompiler demoSilent demoVersion (JObject []) (initial [demoTmpPath])))) = []
   \<and> fst (recompile demoSilent demoMetadata () (initial [demoTmpPath]))
       = Inl (SyntaxError (str ''Unexpected end of JSON input''))"
  by code_simp

text \<open>
  The guard does fire when \<open>spawnSync\<close> gives no output buffer at all (\<open>stdout\<close> is
  \<open>null\<close>, as when the process could not be started): the invocation fails with the
  error \<open>Recompilation error\<close>, and the error log receives the error object of
  \<open>spawnSync\<close>, or the text \<open>Recompilation error\<close> when there is none.
\<close>

lemma useCompiler_no_stdout_fails:
  assumes found: "getSolcExecutable P version s = (Inr (Some solcPath), s1)" and ne: "solcPath \<noteq> []"
    and out: "stdout (spawnSync P (fs s1) solcPath [str ''--standard-json''] (JSON_stringify P input)) = None"
  shows "fst (useCompiler P version input s) = Inl (Error (str ''Recompilation error''))
     \<and> logs (snd (useCompiler P version input s)) =
         logs s1 @
         [Log Info [(''loc'', JString (str ''[RECOMPILE]'')), (''version'', JString version), (''solcPath'', JString solcPath)]
            (Msg (str ''Compiling with external executable'')),
          Log Err [(''loc'', JString (str ''[RECOMPILE]'')), (''version'', JString version), (''solcPath'', JString solcPath)]
            (case error (spawnSync P (fs s1) solcPath [str ''--standard-json''] (JSON_stringify P input)) of
               Some e \<Rightarrow> MsgError e | None \<Rightarrow> Msg (str ''Recompilation error''))]"
  using assms by (simp add: useCompiler_def Let_def andThen_def log_info_def log_error_def)

lemma useCompiler_no_stdout_demoNoSpawn:
  "fst (useCompiler demoNoSpawn demoVersion (JObject []) (initial [demoTmpPath]))
     = Inl (Error (str ''Recompilation error''))
   \<and> filter isErr (logs (snd (useCompiler demoNoSpawn demoVersion (JObject []) (initial [demoTmpPath]))))
     = [Log Err [(''loc'', JString (str ''[RECOMPILE]'')), (''version'', JString demoVersion),
                 (''solcPath'', JString demoTmpPath)] (MsgError (str ''spawnSync EACCES''))]"
proof -
  have found: "getSolcExecutable demoNoSpawn demoVersion (initial [demoTmpPath])
                 = (Inr (Some demoTmpPath), initial [demoTmpPath])"
    by code_simp
  have ne: "demoTmpPath \<noteq> []" by code_simp
  have out: "stdout (spawnSync demoNoSpawn (fs (initial [demoTmpPath])) demoTmpPath [str ''--standard-json'']
                       (JSON_stringify demoNoSpawn (JObject []))) = None"
    by (simp add: demoNoSpawn_def demo_def)
  have err: "error (spawnSync demoNoSpawn files path args inp) = Some (str ''spawnSync EACCES'')"
    for files path args inp
    by (simp add: demoNoSpawn_def demo_def)
  show ?thesis
    using useCompiler_no_stdout_fails [OF found ne out] by (simp add: err initial_def)
qed

section \<open>The output extractor\<close>

lemma recompile_after_parse:
  assumes reformat: "reformatMetadata P meta sources = (Inr (input, fileName, contractName), written)"
    and compile: "useCompiler P (compiler_version meta) input
                    (recompiling fileName contractName (compiler_version meta) (s\<lparr>logs := logs s @ written\<rparr>))
                  = (Inr compiled, s2)"
    and parse: "JSON_parse P compiled = Inr output"
  shows "recompile P meta sources s = recompile_output output fileName contractName (compiler_version meta) s2"
  using assms by (simp add: recompile_def Let_def andThen_def)

text \<open>With an \<open>errors\<close> array to read, a missing target gives the generic error.\<close>

lemma recompile_output_generic_error:
  assumes "targetMissing output fileName contractName = Inr True"
    and "errorMessages output = Inr msgs"
  shows "recompile_output output fileName contractName version s =
           (Inl (Error (str ''Recompilation error (probably caused by invalid metadata)'')),
            log_error [(''loc'', JString (str ''[RECOMPILE]'')), (''fileName'', JString fileName),
                       (''contractName'', JString contractName), (''version'', JString version),
                       (''errors'', JArray msgs)] NoMsg s)"
  using assms by (simp add: recompile_output_def)

text \<open>Without one, reading \<open>output.errors.filter\<close> throws first.\<close>

lemma recompile_output_no_errors_array:
  assumes "targetMissing output fileName contractName = Inr True"
    and "getProp output (str ''errors'') = Inr JUndefined"
  shows "recompile_output output fileName contractName version s = (Inl TypeError, s)"
  using assms by (simp add: recompile_output_def errorMessages_def thenE_def)

text \<open>
  C2. The claim says a missing target gives the generic error whether or not the output
  has an \<open>errors\<close> array. The code reads \<open>output.errors.filter\<close> before it throws: for
  an output without \<open>errors\<close> (a compilation without warnings) that lacks the target
  contract, \<open>recompile\<close> fails with a \<open>TypeError\<close>, not with the generic error, and
  nothing reaches the error log.
\<close>

theorem recompile_without_errors_array:
  "fst (recompile demoWithoutTarget demoMetadata () (initial [demoTmpPath])) = Inl TypeError
   \<and> fst (recompile demoWithoutTarget demoMetadata () (initial [demoTmpPath]))
       \<noteq> Inl (Error (str ''Recompilation error (probably caused by invalid metadata)''))
   \<and> filter isErr (logs (snd (recompile demoWithoutTarget demoMetadata () (initial [demoTmpPath])))) = []"
  by code_simp

text \<open>
  C8. When the parsed compiler output has, under \<open>contracts\<close>, the target file and in
  it the target contract, with the creation bytecode \<open>b\<close>, the deployed bytecode \<open>d\<close>
  and a metadata string that is white space, a core \<open>t\<close> and white space, \<open>recompile\<close>
  returns \<open>0x\<close> followed by \<open>b\<close>, \<open>0x\<close> followed by \<open>d\<close>, and \<open>t\<close>.
\<close>

theorem recompile_returns_artifacts:
  assumes reformat: "reformatMetadata P meta sources = (Inr (input, fileName, contractName), written)"
    and compile: "useCompiler P (compiler_version meta) input
                    (recompiling fileName contractName (compiler_version meta) (s\<lparr>logs := logs s @ written\<rparr>))
                  = (Inr compiled, s2)"
    and parse: "JSON_parse P compiled = Inr (JObject props)"
    and contracts: "map_of props (str ''contracts'') = Some (JObject files)"
    and target: "map_of files fileName = Some (JObject cs)"
    and contract: "map_of cs contractName = Some (JObject entry)"
    and evm: "map_of entry (str ''evm'') = Some (JObject evm)"
    and creation: "map_of evm (str ''bytecode'') = Some (JObject bc)" "map_of bc (str ''object'') = Some (JString b)"
    and deployed: "map_of evm (str ''deployedBytecode'') = Some (JObject dbc)" "map_of dbc (str ''object'') = Some (JString d)"
    and md: "map_of entry (str ''metadata'') = Some (JString (l @ t @ r))"
    and white: "list_all isWhiteSpace l" "list_all isWhiteSpace r"
      "t = [] \<or> (\<not> isWhiteSpace (hd t) \<and> \<not> isWhiteSpace (last t))"
  shows "recompile P meta sources s =
           (Inr \<lparr>bytecode = str ''0x'' @ b, deployedBytecode = str ''0x'' @ d, metadata = t\<rparr>, s2)"
proof -
  have present: "targetMissing (JObject props) fileName contractName = Inr False"
    using contracts target contract by (simp add: targetMissing_def thenE_simps)
  have entry: "getPath (JObject props) [str ''contracts'', fileName, contractName] = Inr (JObject entry)"
    using contracts target contract by (simp add: thenE_simps)
  have "trim (l @ t @ r) = t" using white by (rule trim_core)
  then have "contractResult (JObject entry) =
      Inr \<lparr>bytecode = str ''0x'' @ b, deployedBytecode = str ''0x'' @ d, metadata = t\<rparr>"
    using evm creation deployed md by (simp add: contractResult_def thenE_simps)
  then have "recompile_output (JObject props) fileName contractName (compiler_version meta) s2 =
          (Inr \<lparr>bytecode = str ''0x'' @ b, deployedBytecode = str ''0x'' @ d, metadata = t\<rparr>, s2)"
    using present entry by (simp add: recompile_output_def thenE_simps)
  then show ?thesis
    using recompile_after_parse[OF reformat compile parse] by simp
qed


text \<open>The end-to-end scenario of the specification.\<close>

theorem recompile_returns_artifacts_witness:
  "fst (recompile demoExample demoMetadata () (initial [demoTmpPath]))
     = Inr \<lparr>bytecode = str ''0x6001'', deployedBytecode = str ''0x6002'', metadata = str ''{}''\<rparr>"
proof -
  let ?s = "initial [demoTmpPath]"
  let ?s1 = "recompiling (str ''A.sol'') (str ''A'') (compiler_version demoMetadata) (?s\<lparr>logs := logs ?s @ []\<rparr>)"
  have reformat: "reformatMetadata demoExample demoMetadata () = (Inr (JObject [], str ''A.sol'', str ''A''), [])"
    by (simp add: demoExample_def demo_def)
  have "fst (useCompiler demoExample (compiler_version demoMetadata) (JObject []) ?s1) = Inr (str ''{}'')"
    by code_simp
  then have compile: "useCompiler demoExample (compiler_version demoMetadata) (JObject []) ?s1
       = (Inr (str ''{}''), snd (useCompiler demoExample (compiler_version demoMetadata) (JObject []) ?s1))"
    by (simp add: prod_eq_iff)
  have parse: "JSON_parse demoExample (str ''{}'') = Inr (JObject [(str ''contracts'',
       JObject [(str ''A.sol'',
         JObject [(str ''A'',
           JObject [(str ''evm'',
                     JObject [(str ''bytecode'', JObject [(str ''object'', JString (str ''6001''))]),
                              (str ''deployedBytecode'', JObject [(str ''object'', JString (str ''6002''))])]),
                    (str ''metadata'', JString (str ''  '' @ str ''{}'' @ str ''  ''))])])])])"
    by (simp add: demoExample_def demo_def exampleOutput_def str_def)
  have white: "list_all isWhiteSpace (str ''  '')"
     "str ''{}'' = [] \<or> (\<not> isWhiteSpace (hd (str ''{}'')) \<and> \<not> isWhiteSpace (last (str ''{}'')))"
    by (simp_all add: str_def isWhiteSpace_def)
  show ?thesis
    using recompile_returns_artifacts [OF reformat compile parse _ _ _ _ _ _ _ _ _ white(1) white(1) white(2)]
    by (simp add: str_def)
qed

end
